theory Spec2Isabelle
  imports Complex_Main "HOL-Library.Sublist" "HOL-Library.Multiset"
begin

section \<open>dMRI signal formation (notebook \<open>dMRI-signals\<close>)\<close>

text \<open>
  The notebook computes with Python floats. They are modelled by \<^typ>\<open>real\<close>: every
  arithmetic operation is exact and has unbounded range, \<open>np.pi\<close> is \<^term>\<open>pi\<close> and
  \<open>np.exp\<close> is \<^term>\<open>exp\<close>. Rounding, underflow and overflow are outside the model.

  \<open>b_value\<close> contains no \<open>raise\<close> and no check of its arguments. Its result type is
  nevertheless a sum, so that "the call raises" and "the call returns a number" are both
  values of the model: \<open>Inl\<close> would be a raised validation error, \<open>Inr\<close> is the number
  returned.
\<close>

datatype py_error = ValueError

text \<open>
  \<^verbatim>\<open>
  def b_value(g, delta, Delta, gamma=42.576):
      G = g*1e-3*1e-6 #convert to T/um
      gamma = 2*np.pi*gamma*1e6*1e-3 # convert to 1/ms/T
      b = gamma ** 2 * G ** 2 * delta ** 2 * (Delta-delta/3) # ms/um^2
      return 1000 * b #s/mm^2
  \<close>
\<close>

definition b_value :: "real \<Rightarrow> real \<Rightarrow> real \<Rightarrow> real \<Rightarrow> py_error + real" where
  "b_value g delta Delta gamma =
     (let G = g * (1 / 10 ^ 3) * (1 / 10 ^ 6);
          gamma_r = 2 * pi * gamma * 10 ^ 6 * (1 / 10 ^ 3);
          b = gamma_r ^ 2 * G ^ 2 * delta ^ 2 * (Delta - delta / 3)
      in Inr (1000 * b))"

text \<open>The default of the keyword argument \<open>gamma\<close>, 42.576 MHz/T.\<close>

definition gamma_default :: real where
  "gamma_default = 42576 / 1000"


text \<open>Python's \<open>int(x)\<close> on a float truncates towards zero.\<close>

definition py_int :: "real \<Rightarrow> int" where
  "py_int x = (if 0 \<le> x then \<lfloor>x\<rfloor> else \<lceil>x\<rceil>)"

text \<open>
  Python's \<open>'%s' % n\<close> for an integer \<open>n\<close>: its decimal digits, after a minus sign when
  \<open>n\<close> is negative.
\<close>

definition digit_char :: "nat \<Rightarrow> char" where
  "digit_char d = ''0123456789'' ! d"

function str_nat :: "nat \<Rightarrow> string" where
  "str_nat n = (if n < 10 then [digit_char n] else str_nat (n div 10) @ [digit_char (n mod 10)])"
  by pat_completeness auto
termination
  by (relation "measure id") auto

declare str_nat.simps [simp del]

definition str_int :: "int \<Rightarrow> string" where
  "str_int i = (if i < 0 then CHR ''-'' # str_nat (nat (- i)) else str_nat (nat i))"

text \<open>
  The part of \<open>viz_gradients(g, delta, Delta)\<close> that produces the annotation of the
  right-hand plot:
  \<^verbatim>\<open>
      b = b_value(g, delta, Delta)
      ...
      ax[1].text(1, 0.8, 'b=%s'%int(b))
  \<close>
  \<open>viz_gradients_label\<close> is the text of that annotation. The call of \<open>b_value\<close> leaves
  \<open>gamma\<close> at its default.
\<close>

definition viz_gradients_label :: "real \<Rightarrow> real \<Rightarrow> real \<Rightarrow> py_error + string" where
  "viz_gradients_label g delta Delta =
     (case b_value g delta Delta gamma_default of
        Inl e \<Rightarrow> Inl e
      | Inr b \<Rightarrow> Inr (''b='' @ str_int (py_int b)))"


section \<open>Tractography (notebooks \<open>det_track\<close> and the probabilistic tracking notebook)\<close>

text \<open>
  A numpy volume is modelled by its element type and the sequence of its voxels in
  storage order. The operations below act on every voxel on its own, so the shape of
  the volume plays no role and an index \<open>i\<close> is a position in that sequence.
\<close>

datatype ndarray = IntArray "int list" | BoolArray "bool list"

text \<open>
  \<open>arr == k\<close> for an integer \<open>k\<close>: the elementwise comparison. On a boolean array numpy
  compares the numeric value of each element, \<open>True\<close> being 1 and \<open>False\<close> being 0.
\<close>

fun np_eq :: "ndarray \<Rightarrow> int \<Rightarrow> bool list" where
  "np_eq (IntArray xs) k = map (\<lambda>x. x = k) xs"
| "np_eq (BoolArray bs) k = map (\<lambda>b. (if b then 1 else 0) = k) bs"

text \<open>\<open>a | b\<close> for two boolean arrays of the same shape: the elementwise disjunction.\<close>

definition np_or :: "bool list \<Rightarrow> bool list \<Rightarrow> bool list" where
  "np_or a b = map2 (\<or>) a b"

text \<open>
  \<^verbatim>\<open>
  white_matter =  (labels == 1) | (labels == 2)
  \<close>
\<close>

definition white_matter :: "ndarray \<Rightarrow> bool list" where
  "white_matter labels = np_or (np_eq labels 1) (np_eq labels 2)"

text \<open>
  A streamline is an array of shape \<open>(n, 3)\<close>: \<open>n\<close> nodes of three coordinates each, so
  \<open>s.shape[0]\<close> is its number of nodes.
  \<^verbatim>\<open>
  len_th = 10
  streamlines = [s for s in streamlines if s.shape[0]>len_th]
  \<close>
  The threshold is a parameter here; the notebooks fix it to 10.
\<close>

type_synonym streamline = "(real \<times> real \<times> real) list"

definition shape0 :: "streamline \<Rightarrow> int" where
  "shape0 s = int (length s)"

definition streamlines_filter :: "int \<Rightarrow> streamline list \<Rightarrow> streamline list" where
  "streamlines_filter len_th streamlines = [s. s \<leftarrow> streamlines, shape0 s > len_th]"


section \<open>Bounds on \<open>pi\<close>\<close>

text \<open>
  The example value of \<open>b_value\<close> is a rational multiple of \<open>pi\<^sup>2\<close>, so locating it needs
  \<open>pi\<close> to three decimals. The sine is increasing on \<open>[-pi/2, pi/2]\<close> and takes the value
  \<open>1/2\<close> at \<open>pi/6\<close>; a Maclaurin polynomial of degree five with its remainder places
  \<open>3.1414 / 6\<close> below and \<open>3.142 / 6\<close> above that point.
\<close>

lemma sin_coeff_upto_6:
  "sin_coeff (Suc 0) = 1" "sin_coeff 2 = 0" "sin_coeff 3 = - 1 / 6"
  "sin_coeff 4 = 0" "sin_coeff 5 = 1 / 120" "sin_coeff 6 = 0"
  by (simp_all add: sin_coeff_def fact_numeral)

lemma lessThan_7: "{..<7::nat} = {0, 1, 2, 3, 4, 5, 6}"
  by auto

lemma sin_poly_5: "(\<Sum>m<7. sin_coeff m * x ^ m) = x - x ^ 3 / 6 + x ^ 5 / 120" for x :: real
  unfolding lessThan_7 by (simp add: sin_coeff_upto_6)

lemma fact_7: "fact 7 = (5040::real)"
  by (simp add: fact_numeral)

lemma sin_remainder_7:
  "\<bar>sin x - (x - x ^ 3 / 6 + x ^ 5 / 120)\<bar> \<le> inverse 5040 * \<bar>x\<bar> ^ 7" for x :: real
  using Maclaurin_sin_bound [of x 7] unfolding sin_poly_5 fact_7 .

lemma within_remainder:
  fixes s p e :: real
  assumes "\<bar>s - p\<bar> \<le> inverse 5040 * e"
  shows "s \<le> p + e / 5040" and "p - e / 5040 \<le> s"
proof -
  have *: "s - p \<le> e / 5040" "- (s - p) \<le> e / 5040"
    using assms unfolding abs_le_iff by (simp_all add: inverse_eq_divide)
  from * show "s \<le> p + e / 5040" by linarith
  from * show "p - e / 5040 \<le> s" by linarith
qed

lemma poly_below_half:
  "15707 / 30000 - (15707 / 30000) ^ 3 / 6 + (15707 / 30000) ^ 5 / 120
     + \<bar>15707 / 30000\<bar> ^ 7 / 5040 < (1 / 2 :: real)"
  by (simp add: power_divide)

lemma poly_above_half:
  "(1 / 2 :: real) < 1571 / 3000 - (1571 / 3000) ^ 3 / 6 + (1571 / 3000) ^ 5 / 120
     - \<bar>1571 / 3000\<bar> ^ 7 / 5040"
  by (simp add: power_divide)

lemma sin_below_half: "sin (15707 / 30000 :: real) < 1 / 2"
  using within_remainder(1) [OF sin_remainder_7 [of "15707 / 30000"]] poly_below_half
  by linarith

lemma sin_above_half: "1 / 2 < sin (1571 / 3000 :: real)"
  using within_remainder(2) [OF sin_remainder_7 [of "1571 / 3000"]] poly_above_half
  by linarith

lemma pi_gt_31414: "15707 / 5000 < pi"
proof -
  have "sin (15707 / 30000 :: real) < sin (pi / 6)"
    using sin_below_half by (simp add: sin_30)
  moreover have "- (pi / 2) \<le> 15707 / 30000" "15707 / 30000 \<le> pi / 2"
      "- (pi / 2) \<le> pi / 6" "pi / 6 \<le> pi / 2"
    using pi_ge_two by simp_all
  ultimately have "15707 / 30000 < pi / 6"
    by (simp add: sin_mono_less_eq)
  then show ?thesis by simp
qed

lemma pi_less_3142: "pi < 1571 / 500"
proof -
  have "sin (pi / 6) < sin (1571 / 3000 :: real)"
    using sin_above_half by (simp add: sin_30)
  moreover have "- (pi / 2) \<le> 1571 / 3000" "1571 / 3000 \<le> pi / 2"
      "- (pi / 2) \<le> pi / 6" "pi / 6 \<le> pi / 2"
    using pi_ge_two by simp_all
  ultimately have "pi / 6 < 1571 / 3000"
    by (simp add: sin_mono_less_eq)
  then show ?thesis by simp
qed


section \<open>Properties of \<open>b_value\<close>\<close>


lemma projr_b_value:
  "projr (b_value g delta Delta gamma) =
     4 / 10 ^ 9 * pi\<^sup>2 * gamma\<^sup>2 * g\<^sup>2 * (delta\<^sup>2 * (Delta - delta / 3))"
  by (simp add: b_value_def Let_def power2_eq_square)












subsection \<open>The example call\<close>

lemma b_value_example:
  "projr (b_value 40 13 60 (42576 / 1000)) = 133229888922 / 1220703125 * pi\<^sup>2"
  by (simp add: projr_b_value power_divide)

lemma pi_sq_bounds: "(15707 / 5000)\<^sup>2 < pi\<^sup>2" "pi\<^sup>2 < (1571 / 500)\<^sup>2"
  using pi_gt_31414 pi_less_3142 by (simp_all add: power_strict_mono)

lemma b_value_example_bounds:
  "1077 < projr (b_value 40 13 60 (42576 / 1000))"
  "projr (b_value 40 13 60 (42576 / 1000)) < 1078"
proof -
  have "1077 < 133229888922 / 1220703125 * (15707 / 5000 :: real)\<^sup>2"
    by (simp add: power_divide)
  also have "\<dots> < 133229888922 / 1220703125 * pi\<^sup>2"
    using pi_sq_bounds(1) by (intro mult_strict_left_mono) simp_all
  finally show "1077 < projr (b_value 40 13 60 (42576 / 1000))"
    by (simp only: b_value_example)
  have "133229888922 / 1220703125 * pi\<^sup>2 < 133229888922 / 1220703125 * (1571 / 500 :: real)\<^sup>2"
    using pi_sq_bounds(2) by (intro mult_strict_left_mono) simp_all
  also have "\<dots> < 1078"
    by (simp add: power_divide)
  finally show "projr (b_value 40 13 60 (42576 / 1000)) < 1078"
    by (simp only: b_value_example)
qed

lemma py_int_between:
  assumes "of_int n < x" "x < of_int n + 1" "0 \<le> n"
  shows "py_int x = n"
proof -
  have "0 \<le> x"
    using assms by linarith
  moreover have "\<lfloor>x\<rfloor> = n"
    using assms by (intro floor_unique) simp_all
  ultimately show ?thesis
    by (simp add: py_int_def)
qed

text \<open>
  \<^bold>\<open>C2\<close>, as stated, places \<open>b_value(g=40, delta=13, Delta=60, gamma=42.576)\<close> between
  1800 and 2000 s/mm^2. The value returned is not in that range.
\<close>

theorem b_value_example_not_1800_2000:
  "\<not> (1800 \<le> projr (b_value 40 13 60 (42576 / 1000))
      \<and> projr (b_value 40 13 60 (42576 / 1000)) \<le> 2000)"
  using b_value_example_bounds(2) by linarith

text \<open>
  \<^bold>\<open>C2\<close>, amended: \<open>b_value(g=40, delta=13, Delta=60, gamma=42.576)\<close> returns a number
  strictly between 1077 and 1078, and the annotation of the plot at the default slider
  positions shows the integer part of that number: its text is \<open>b=1077\<close>.
\<close>

theorem b_value_example_1077:
  "\<exists>b. b_value 40 13 60 (42576 / 1000) = Inr b \<and> 1077 < b \<and> b < 1078
      \<and> py_int b = 1077 \<and> viz_gradients_label 40 13 60 = Inr ''b=1077''"
proof -
  define b where "b = projr (b_value 40 13 60 (42576 / 1000))"
  have ret: "b_value 40 13 60 (42576 / 1000) = Inr b"
    unfolding b_def by (simp add: b_value_def Let_def)
  have bounds: "1077 < b" "b < 1078"
    unfolding b_def by (rule b_value_example_bounds)+
  have trunc: "py_int b = 1077"
    using bounds py_int_between [of 1077 b] by simp
  have "str_int 1077 = ''1077''"
    by (simp add: str_int_def str_nat.simps digit_char_def)
  then have "viz_gradients_label 40 13 60 = Inr ''b=1077''"
    using ret trunc by (simp add: viz_gradients_label_def gamma_default_def)
  then show ?thesis
    using ret bounds trunc by blast
qed


subsection \<open>Arguments outside the contract\<close>








section \<open>Properties of \<open>ST_equation\<close>\<close>





section \<open>Properties of the mask and of the streamline filter\<close>

lemma white_matter_IntArray: "white_matter (IntArray L) = map (\<lambda>x. x = 1 \<or> x = 2) L"
  by (induction L) (simp_all add: white_matter_def np_or_def)

lemma white_matter_BoolArray: "white_matter (BoolArray m) = m"
  by (induction m) (simp_all add: white_matter_def np_or_def)

text \<open>
  \<^bold>\<open>C7.\<close> For an integer label volume \<open>L\<close> the mask has the shape of \<open>L\<close>, it is true at
  index \<open>i\<close> exactly when \<open>L[i]\<close> is 1 or 2, and deriving a mask from that mask again
  gives the same mask.
\<close>

theorem white_matter_mask:
  "length (white_matter (IntArray L)) = length L
     \<and> (\<forall>i<length L. white_matter (IntArray L) ! i \<longleftrightarrow> L ! i \<in> {1, 2})
     \<and> white_matter (BoolArray (white_matter (IntArray L))) = white_matter (IntArray L)"
  by (simp add: white_matter_IntArray white_matter_BoolArray)

text \<open>C7 on the label volume \<open>[0, 1, 2, 3]\<close>, at each of its four indices.\<close>

theorem white_matter_mask_witness:
  "length (white_matter (IntArray [0, 1, 2, 3])) = length [0, 1, 2, 3 :: int]
     \<and> (white_matter (IntArray [0, 1, 2, 3]) ! 0 \<longleftrightarrow> [0, 1, 2, 3 :: int] ! 0 \<in> {1, 2})
     \<and> (white_matter (IntArray [0, 1, 2, 3]) ! 1 \<longleftrightarrow> [0, 1, 2, 3 :: int] ! 1 \<in> {1, 2})
     \<and> (white_matter (IntArray [0, 1, 2, 3]) ! 2 \<longleftrightarrow> [0, 1, 2, 3 :: int] ! 2 \<in> {1, 2})
     \<and> (white_matter (IntArray [0, 1, 2, 3]) ! 3 \<longleftrightarrow> [0, 1, 2, 3 :: int] ! 3 \<in> {1, 2})
     \<and> white_matter (BoolArray (white_matter (IntArray [0, 1, 2, 3])))
         = white_matter (IntArray [0, 1, 2, 3])"
proof -
  have i: "(0 :: nat) < length [0, 1, 2, 3 :: int]" "(1 :: nat) < length [0, 1, 2, 3 :: int]"
    "(2 :: nat) < length [0, 1, 2, 3 :: int]" "(3 :: nat) < length [0, 1, 2, 3 :: int]"
    by simp_all
  from white_matter_mask [of "[0, 1, 2, 3]"] i show ?thesis
    by blast
qed

lemma streamlines_filter_conv_filter:
  "streamlines_filter len_th streamlines = filter (\<lambda>s. len_th < shape0 s) streamlines"
  by (induction streamlines) (simp_all add: streamlines_filter_def)

text \<open>
  \<^bold>\<open>C8.\<close> For every list of streamlines and every threshold \<open>t\<close> the filter returns the
  streamlines with more than \<open>t\<close> nodes: the result is a subsequence of the input (same
  streamlines, same relative order), a streamline with more than \<open>t\<close> nodes occurs in it
  as often as in the input and any other streamline does not occur, and filtering the
  result again with the same threshold changes nothing.
\<close>

theorem streamlines_filter_exact:
  "streamlines_filter t ss = filter (\<lambda>s. t < int (length s)) ss
     \<and> subseq (streamlines_filter t ss) ss
     \<and> (\<forall>s. count (mset (streamlines_filter t ss)) s
            = (if t < int (length s) then count (mset ss) s else 0))
     \<and> streamlines_filter t (streamlines_filter t ss) = streamlines_filter t ss"
  by (simp add: streamlines_filter_conv_filter shape0_def)

text \<open>
  C8 with threshold 1 on four streamlines of 1, 2, 0 and 3 nodes: the second and the
  fourth remain, in that order.
\<close>

theorem streamlines_filter_exact_witness:
  "streamlines_filter 1
      [[(0, 0, 0)], [(0, 0, 0), (1, 0, 0)], [], [(0, 0, 0), (0, 1, 0), (0, 2, 0)]]
     = [[(0, 0, 0), (1, 0, 0)], [(0, 0, 0), (0, 1, 0), (0, 2, 0)]]"
  using streamlines_filter_exact
    [of 1 "[[(0, 0, 0)], [(0, 0, 0), (1, 0, 0)], [], [(0, 0, 0), (0, 1, 0), (0, 2, 0)]]"]
  by simp

end
